theory Spec2Isabelle
  imports Complex_Main
begin

section \<open>Values shared by the models\<close>

text \<open>
  The embedding follows \<^verbatim>\<open>src/sales/models.py\<close> and
  \<^verbatim>\<open>src/sales/management/commands/generate_revenue_records.py\<close>.

  \<^item> A \<^verbatim>\<open>DecimalField\<close> value is a rational number. Within the declared field
    widths (at most 12 digits with 2 decimal places for amounts, 5 digits with 2 places for
    percentages, 32-bit quantities) every product, quotient by 100 and sum computed by the
    \<^verbatim>\<open>save\<close> methods has fewer than 28 significant digits, so Python's
    \<^verbatim>\<open>Decimal\<close> context performs it without rounding. The values are those held by
    the model instance. A column declared \<^verbatim>\<open>DecimalField(max_digits=m, decimal_places=2)\<close>
    stores the value rounded to two decimal places and refuses a value that then needs more
    than \<open>m\<close> digits.
  \<^item> A primary key (\<^verbatim>\<open>UUIDField\<close>) is the string that \<^verbatim>\<open>str(instance.id)\<close> yields.
  \<^item> A user is referred to by a number.
  \<^item> A raised exception is a value of type \<open>py_error\<close> carrying the text of \<^verbatim>\<open>str(e)\<close>.
\<close>

type_synonym decimal = rat
type_synonym uuid = string
type_synonym user = nat

datatype py_error =
    ValueError string
  | OverflowError string
  | AttributeError string
  | IntegrityError string
  | DatabaseError string
  | InvalidOperation string
  | TransactionManagementError string

fun error_str :: "py_error \<Rightarrow> string" where
  "error_str (ValueError m) = m"
| "error_str (OverflowError m) = m"
| "error_str (AttributeError m) = m"
| "error_str (IntegrityError m) = m"
| "error_str (DatabaseError m) = m"
| "error_str (InvalidOperation m) = m"
| "error_str (TransactionManagementError m) = m"

text \<open>Sequencing of steps that may raise.\<close>

definition and_then :: "py_error + 'a \<Rightarrow> ('a \<Rightarrow> py_error + 'b) \<Rightarrow> py_error + 'b" where
  "and_then r f = (case r of Inl e \<Rightarrow> Inl e | Inr v \<Rightarrow> f v)"

text \<open>
  What the storage layer does with a value written to a column declared
  \<^verbatim>\<open>DecimalField(max_digits=m, decimal_places=2)\<close>
  (\<^verbatim>\<open>value.quantize(Decimal('0.01'), context)\<close> with precision \<open>m\<close>): the value is
  rounded to two decimal places, a tie going to the even neighbour, and
  \<^verbatim>\<open>decimal.InvalidOperation\<close> is raised when the rounded value has more than \<open>m\<close>
  digits.
\<close>

definition quantize2 :: "decimal \<Rightarrow> decimal" where
  "quantize2 v =
     (let n = v * 100; f = \<lfloor>n\<rfloor>; r = n - of_int f
      in if r < 1 / 2 then of_int f / 100
         else if 1 / 2 < r then of_int (f + 1) / 100
         else if even f then of_int f / 100
         else of_int (f + 1) / 100)"

definition adapt_decimalfield_value :: "nat \<Rightarrow> decimal \<Rightarrow> py_error + decimal" where
  "adapt_decimalfield_value max_digits v =
     (let q = quantize2 v
      in if 10 ^ max_digits \<le> \<bar>q\<bar> * 100
         then Inl (InvalidOperation ''quantize result has too many digits for current context'')
         else Inr q)"


text \<open>
  \<^verbatim>\<open>super().save()\<close> of a model whose only constraint is its primary key. \<open>db_prep\<close>
  converts the instance into the row its columns can hold, or raises. \<open>adding\<close> is
  \<^verbatim>\<open>self._state.adding\<close>: true for an instance constructed in memory, false for one that
  was loaded from the table or has been saved. The key has a default, so an instance that is
  being added is inserted, and the insert fails when the key is taken. Otherwise the row with
  the instance's key is replaced when there is one (\<open>created = False\<close>), and the row is
  inserted when there is none (\<open>created = True\<close>).
\<close>

definition Model_save ::
  "('a \<Rightarrow> uuid) \<Rightarrow> ('a \<Rightarrow> py_error + 'a) \<Rightarrow> bool \<Rightarrow> 'a \<Rightarrow> 'a list
     \<Rightarrow> py_error + bool \<times> 'a list" where
  "Model_save pk db_prep adding obj rows =
     and_then (db_prep obj) (\<lambda>row.
       if adding then
         (if \<exists>r \<in> set rows. pk r = pk obj
          then Inl (IntegrityError ''UNIQUE constraint failed: id'')
          else Inr (True, rows @ [row]))
       else if \<exists>r \<in> set rows. pk r = pk obj
         then Inr (False, map (\<lambda>r. if pk r = pk obj then row else r) rows)
       else Inr (True, rows @ [row]))"


section \<open>Transaction\<close>

record transaction =
  transaction_id :: uuid
  amount :: decimal
  is_taxable :: bool
  tax_percentage :: decimal
  tax_amount :: decimal
  gst_applicable :: bool
  gst_percentage :: decimal
  gst_amount :: decimal
  total_amount :: decimal

text \<open>
  The row that the columns of a Transaction hold: \<open>amount\<close>, \<open>tax_amount\<close>,
  \<open>gst_amount\<close> and \<open>total_amount\<close> are declared with 12 digits, the two percentages
  with 5, all with two decimal places.
\<close>

definition Transaction_db_prep :: "transaction \<Rightarrow> py_error + transaction" where
  "Transaction_db_prep t =
     and_then (adapt_decimalfield_value 12 (amount t)) (\<lambda>a.
     and_then (adapt_decimalfield_value 5 (transaction.tax_percentage t)) (\<lambda>tp.
     and_then (adapt_decimalfield_value 12 (transaction.tax_amount t)) (\<lambda>ta.
     and_then (adapt_decimalfield_value 5 (transaction.gst_percentage t)) (\<lambda>gp.
     and_then (adapt_decimalfield_value 12 (transaction.gst_amount t)) (\<lambda>ga.
     and_then (adapt_decimalfield_value 12 (transaction.total_amount t)) (\<lambda>tot.
       Inr (t\<lparr>amount := a, transaction.tax_percentage := tp, transaction.tax_amount := ta,
              transaction.gst_percentage := gp, transaction.gst_amount := ga,
              transaction.total_amount := tot\<rparr>)))))))"

text \<open>
  \<^verbatim>\<open>Transaction.save\<close>: the two guarded assignments, the total, then
  \<^verbatim>\<open>super().save()\<close>. The result is the instance as left by the method, the
  \<open>created\<close> flag and the table.
\<close>

definition Transaction_save ::
  "bool \<Rightarrow> transaction \<Rightarrow> transaction list
     \<Rightarrow> py_error + transaction \<times> bool \<times> transaction list" where
  "Transaction_save adding self rows =
     (let self1 = (if is_taxable self
                   then self\<lparr>transaction.tax_amount :=
                          (amount self * transaction.tax_percentage self) / 100\<rparr>
                   else self);
          self2 = (if gst_applicable self1
                   then self1\<lparr>transaction.gst_amount :=
                          (amount self1 * transaction.gst_percentage self1) / 100\<rparr>
                   else self1);
          self3 = self2\<lparr>transaction.total_amount :=
                          amount self2 + transaction.tax_amount self2
                            + transaction.gst_amount self2\<rparr>
      in and_then (Model_save transaction_id Transaction_db_prep adding self3 rows)
           (\<lambda>(created, rows'). Inr (self3, created, rows')))"

text \<open>The row of a given key, as a later read of the table returns it.\<close>

definition stored_transaction :: "uuid \<Rightarrow> transaction list \<Rightarrow> transaction option" where
  "stored_transaction k rows = find (\<lambda>r. transaction_id r = k) rows"


section \<open>SaleItem\<close>

record sale_item =
  sale_item_id :: uuid
  sale :: uuid
  item_name :: string
  quantity :: int
  unit_price :: decimal
  tax_percentage :: decimal
  tax_amount :: decimal
  gst_percentage :: decimal
  gst_amount :: decimal
  line_total :: decimal

text \<open>
  The row that the columns of a SaleItem hold: \<open>unit_price\<close>, \<open>tax_amount\<close> and
  \<open>gst_amount\<close> are declared with 10 digits, the two percentages with 5 and
  \<open>line_total\<close> with 12, all with two decimal places.
\<close>

definition SaleItem_db_prep :: "sale_item \<Rightarrow> py_error + sale_item" where
  "SaleItem_db_prep i =
     and_then (adapt_decimalfield_value 10 (unit_price i)) (\<lambda>up.
     and_then (adapt_decimalfield_value 5 (sale_item.tax_percentage i)) (\<lambda>tp.
     and_then (adapt_decimalfield_value 10 (sale_item.tax_amount i)) (\<lambda>ta.
     and_then (adapt_decimalfield_value 5 (sale_item.gst_percentage i)) (\<lambda>gp.
     and_then (adapt_decimalfield_value 10 (sale_item.gst_amount i)) (\<lambda>ga.
     and_then (adapt_decimalfield_value 12 (line_total i)) (\<lambda>lt.
       Inr (i\<lparr>unit_price := up, sale_item.tax_percentage := tp, sale_item.tax_amount := ta,
              sale_item.gst_percentage := gp, sale_item.gst_amount := ga,
              line_total := lt\<rparr>)))))))"

text \<open>
  \<^verbatim>\<open>SaleItem.save\<close>. The field \<open>sale\<close> is the key of the Sale the line belongs to and
  \<open>item_name\<close> is \<^verbatim>\<open>self.item.name\<close>.
\<close>

definition SaleItem_save ::
  "bool \<Rightarrow> sale_item \<Rightarrow> sale_item list \<Rightarrow> py_error + sale_item \<times> bool \<times> sale_item list"
  where
  "SaleItem_save adding self rows =
     (let self1 = self\<lparr>sale_item.tax_amount :=
                     (unit_price self * of_int (quantity self) * sale_item.tax_percentage self)
                       / 100\<rparr>;
          self2 = self1\<lparr>sale_item.gst_amount :=
                     (unit_price self1 * of_int (quantity self1)
                        * sale_item.gst_percentage self1) / 100\<rparr>;
          self3 = self2\<lparr>line_total :=
                     (unit_price self2 * of_int (quantity self2))
                       + sale_item.tax_amount self2 + sale_item.gst_amount self2\<rparr>
      in and_then (Model_save sale_item_id SaleItem_db_prep adding self3 rows)
           (\<lambda>(created, rows'). Inr (self3, created, rows')))"

text \<open>The row of a line, as a later read of the table returns it.\<close>

definition stored_sale_item :: "uuid \<Rightarrow> sale_item list \<Rightarrow> sale_item option" where
  "stored_sale_item k rows = find (\<lambda>r. sale_item_id r = k) rows"


section \<open>Dates and text\<close>

text \<open>
  A \<^verbatim>\<open>datetime.date\<close> has a year from 1 to 9999, a month and a day of that month;
  constructing any other date raises \<^verbatim>\<open>ValueError\<close>. Dates compare field by field.
\<close>

record date =
  year :: nat
  month :: nat
  day :: nat

definition is_leap :: "nat \<Rightarrow> bool" where
  "is_leap y = (y mod 4 = 0 \<and> (y mod 100 \<noteq> 0 \<or> y mod 400 = 0))"

definition days_in_month :: "nat \<Rightarrow> nat \<Rightarrow> nat" where
  "days_in_month y m =
     (if m = 2 then (if is_leap y then 29 else 28)
      else if m = 4 \<or> m = 6 \<or> m = 9 \<or> m = 11 then 30
      else 31)"

definition valid_date :: "date \<Rightarrow> bool" where
  "valid_date d =
     (1 \<le> year d \<and> year d \<le> 9999 \<and> 1 \<le> month d \<and> month d \<le> 12
      \<and> 1 \<le> day d \<and> day d \<le> days_in_month (year d) (month d))"

definition date_le :: "date \<Rightarrow> date \<Rightarrow> bool" where
  "date_le a b =
     (year a < year b
      \<or> (year a = year b \<and> (month a < month b \<or> (month a = month b \<and> day a \<le> day b))))"

text \<open>\<^verbatim>\<open>str(n)\<close> of a natural number, and of an integer.\<close>

definition digit_char :: "nat \<Rightarrow> char" where
  "digit_char n = ''0123456789'' ! n"

function str_nat :: "nat \<Rightarrow> string" where
  "str_nat n =
     (if n < 10 then [digit_char n]
      else str_nat (n div 10) @ [digit_char (n mod 10)])"
  by pat_completeness auto
termination
  by (relation "measure (\<lambda>n. n)") auto

declare str_nat.simps [simp del]

definition str_int :: "int \<Rightarrow> string" where
  "str_int i = (if i < 0 then CHR ''-'' # str_nat (nat (- i)) else str_nat (nat i))"

text \<open>Right-justification with zeros to a minimum width, as \<^verbatim>\<open>%05d\<close> and \<^verbatim>\<open>%m\<close> do.\<close>

definition zero_pad :: "nat \<Rightarrow> string \<Rightarrow> string" where
  "zero_pad w s = replicate (w - length s) CHR ''0'' @ s"

definition format_05d :: "nat \<Rightarrow> string" where
  "format_05d n = zero_pad 5 (str_nat n)"

definition strftime_Ymd :: "date \<Rightarrow> string" where
  "strftime_Ymd d =
     zero_pad 4 (str_nat (year d)) @ zero_pad 2 (str_nat (month d))
       @ zero_pad 2 (str_nat (day d))"

text \<open>\<^verbatim>\<open>datetime.date(y, m, d)\<close> with its range checks, in their order.\<close>

definition date_new :: "nat \<Rightarrow> nat \<Rightarrow> nat \<Rightarrow> py_error + date" where
  "date_new y m d =
     (if y < 1 \<or> 9999 < y then Inl (ValueError (''year '' @ str_nat y @ '' is out of range''))
      else if m < 1 \<or> 12 < m then Inl (ValueError ''month must be in 1..12'')
      else if d < 1 \<or> days_in_month y m < d
        then Inl (ValueError ''day is out of range for month'')
      else Inr \<lparr>year = y, month = m, day = d\<rparr>)"

text \<open>\<^verbatim>\<open>self.replace(year=..., month=..., day=...)\<close>: an omitted argument keeps the field.\<close>

definition date_replace ::
  "date \<Rightarrow> nat option \<Rightarrow> nat option \<Rightarrow> nat option \<Rightarrow> py_error + date" where
  "date_replace self y m d =
     date_new (case y of None \<Rightarrow> year self | Some v \<Rightarrow> v)
              (case m of None \<Rightarrow> month self | Some v \<Rightarrow> v)
              (case d of None \<Rightarrow> day self | Some v \<Rightarrow> v)"

text \<open>\<^verbatim>\<open>self - timedelta(days=1)\<close>: the day before, or \<^verbatim>\<open>OverflowError\<close> before year 1.\<close>

definition date_sub_one_day :: "date \<Rightarrow> py_error + date" where
  "date_sub_one_day self =
     (if 1 < day self then Inr (self\<lparr>day := day self - 1\<rparr>)
      else if 1 < month self
        then Inr \<lparr>year = year self, month = month self - 1,
                  day = days_in_month (year self) (month self - 1)\<rparr>
      else if 1 < year self then Inr \<lparr>year = year self - 1, month = 12, day = 31\<rparr>
      else Inl (OverflowError ''date value out of range''))"


section \<open>Sale, Revenue and AuditLog records\<close>

text \<open>
  A foreign key to a Customer is the related object as the ORM hands it out, with its key and
  name; queries compare customers by key. \<open>created_at\<close> keeps the calendar day of the
  timestamp, \<open>None\<close> before the first save.
\<close>

record customer =
  customer_id :: uuid
  name :: string

record sale =
  sale_id :: uuid
  sale_number :: string
  customer :: "customer option"
  sale_date :: date
  status :: string
  subtotal :: decimal
  total_tax :: decimal
  total_gst :: decimal
  total_amount :: decimal
  created_by :: user
  created_at :: "date option"

text \<open>
  A Revenue row is addressed by the columns of its uniqueness constraint
  \<^verbatim>\<open>unique_together = ('customer', 'frequency', 'start_date')\<close>; the record holds the rest.
\<close>

type_synonym revenue_key = "uuid \<times> string \<times> date"

record revenue =
  end_date :: date
  total_revenue :: decimal
  total_transactions :: nat
  total_tax :: decimal
  total_gst :: decimal
  created_by :: user

record audit_log =
  user :: "user option"
  action :: string
  model_name :: string
  object_id :: string
  object_str :: string
  old_values :: "(string \<times> string) list option"
  new_values :: "(string \<times> string) list option"
  changes :: "(string \<times> string \<times> string) list option"
  ip_address :: "string option"
  description :: string

text \<open>
  The tables the models write, the lines printed to standard output, and the two flags of the
  database connection that \<^verbatim>\<open>transaction.atomic\<close> maintains: whether a transaction block
  is open, and whether a database error inside it has marked it for rollback.
\<close>

record state =
  sale_rows :: "sale list"
  sale_item_rows :: "sale_item list"
  revenue_rows :: "revenue_key \<Rightarrow> revenue option"
  audit_rows :: "audit_log list"
  stdout :: "string list"
  in_atomic_block :: bool
  needs_rollback :: bool

text \<open>The error of every query made in a transaction that is marked for rollback.\<close>

definition broken_transaction :: py_error where
  "broken_transaction =
     TransactionManagementError
       ''An error occurred in the current transaction. You can not execute queries until the end of the atomic block.''"

text \<open>
  \<^verbatim>\<open>with transaction.atomic():\<close> around a body. The block is entered with the rollback
  mark cleared. If the body raises, the exception passes on and the tables are as before the
  block. If the body returns and the transaction is marked for rollback, the block rolls back
  without raising: the tables are as before the block, what was printed stays printed.
  Otherwise the block commits.
\<close>

definition atomic ::
  "(state \<Rightarrow> py_error + 'a \<times> state) \<Rightarrow> state \<Rightarrow> py_error + 'a \<times> state" where
  "atomic body st =
     (case body (st\<lparr>in_atomic_block := True, needs_rollback := False\<rparr>) of
        Inl e \<Rightarrow> Inl e
      | Inr (v, st') \<Rightarrow>
          if needs_rollback st' then Inr (v, st\<lparr>stdout := stdout st'\<rparr>)
          else Inr (v, st'\<lparr>in_atomic_block := in_atomic_block st,
                          needs_rollback := needs_rollback st\<rparr>))"


section \<open>AuditLog.log\_action\<close>

text \<open>
  \<^verbatim>\<open>AuditLog.objects.create\<close>: the database either rejects the row with an error
  (\<open>reject row = Some e\<close>) or appends it. Which rows it rejects is a parameter of the model.
  The result is the exception raised, if any, and the state: a database error raised inside a
  transaction block marks the transaction for rollback, and in a transaction so marked the
  insert raises without reaching the table.
\<close>

definition AuditLog_create ::
  "(audit_log \<Rightarrow> py_error option) \<Rightarrow> audit_log \<Rightarrow> state \<Rightarrow> py_error option \<times> state"
  where
  "AuditLog_create reject row st =
     (if needs_rollback st then (Some broken_transaction, st)
      else case reject row of
             Some e \<Rightarrow> (Some e, st\<lparr>needs_rollback := in_atomic_block st\<rparr>)
           | None \<Rightarrow> (None, st\<lparr>audit_rows := audit_rows st @ [row]\<rparr>))"

text \<open>The loop over \<^verbatim>\<open>new_values\<close> that fills \<^verbatim>\<open>changes\<close>; dictionaries keep insertion order.\<close>

fun diff_values ::
  "(string \<times> string) list \<Rightarrow> (string \<times> string) list \<Rightarrow> (string \<times> string \<times> string) list" where
  "diff_values old [] = []"
| "diff_values old ((key, new) # rest) =
     (case map_of old key of
        Some v \<Rightarrow> (if v \<noteq> new then (key, v, new) # diff_values old rest
                   else diff_values old rest)
      | None \<Rightarrow> diff_values old rest)"

text \<open>The body of the \<^verbatim>\<open>try\<close> block of \<^verbatim>\<open>log_action\<close>.\<close>

definition log_action_try ::
  "(audit_log \<Rightarrow> py_error option) \<Rightarrow> user option \<Rightarrow> string \<Rightarrow> string \<Rightarrow> string \<Rightarrow> string
     \<Rightarrow> (string \<times> string) list option \<Rightarrow> (string \<times> string) list option \<Rightarrow> string option
     \<Rightarrow> string \<Rightarrow> state \<Rightarrow> py_error option \<times> state" where
  "log_action_try reject usr act model oid ostr old new ip descr st =
     (let chg = (case (old, new) of
                   (Some ov, Some nv) \<Rightarrow> (if ov \<noteq> [] \<and> nv \<noteq> [] then diff_values ov nv else [])
                 | _ \<Rightarrow> [])
      in AuditLog_create reject
           \<lparr>user = usr, action = act, model_name = model, object_id = oid,
            object_str = take 500 ostr, old_values = old, new_values = new,
            changes = (if chg \<noteq> [] then Some chg else None),
            ip_address = ip, description = descr\<rparr> st)"

text \<open>\<^verbatim>\<open>log_action\<close>: the \<^verbatim>\<open>except\<close> clause prints the error and returns.\<close>

definition log_action ::
  "(audit_log \<Rightarrow> py_error option) \<Rightarrow> user option \<Rightarrow> string \<Rightarrow> string \<Rightarrow> string \<Rightarrow> string
     \<Rightarrow> (string \<times> string) list option \<Rightarrow> (string \<times> string) list option \<Rightarrow> string option
     \<Rightarrow> string \<Rightarrow> state \<Rightarrow> state" where
  "log_action reject usr act model oid ostr old new ip descr st =
     (case log_action_try reject usr act model oid ostr old new ip descr st of
        (None, st') \<Rightarrow> st'
      | (Some e, st') \<Rightarrow>
          st'\<lparr>stdout := stdout st' @ [''Error logging audit: '' @ error_str e]\<rparr>)"


section \<open>Sale.save\<close>

text \<open>
  \<^verbatim>\<open>super().save()\<close> of a Sale: \<open>sale_number\<close> is declared unique, so a row of another
  key with the same number makes the write fail; an insert stamps \<open>created_at\<close>
  (\<^verbatim>\<open>auto_now_add\<close>).
\<close>

definition Sale_super_save ::
  "date \<Rightarrow> sale \<Rightarrow> sale list \<Rightarrow> py_error + (sale \<times> bool \<times> sale list)" where
  "Sale_super_save today self rows =
     (if \<exists>r \<in> set rows. sale_id r \<noteq> sale_id self \<and> sale_number r = sale_number self
      then Inl (IntegrityError ''UNIQUE constraint failed: sales_sale.sale_number'')
      else if \<exists>r \<in> set rows. sale_id r = sale_id self
        then Inr (self, False, map (\<lambda>r. if sale_id r = sale_id self then self else r) rows)
      else (let self' = self\<lparr>created_at := Some today\<rparr>
            in Inr (self', True, rows @ [self'])))"

text \<open>
  \<^verbatim>\<open>Sale.save\<close>. \<open>today\<close> is the calendar day on which the call runs: the day of
  \<^verbatim>\<open>datetime.datetime.now()\<close>, of \<^verbatim>\<open>datetime.date.today()\<close> and of the timestamp that
  \<^verbatim>\<open>auto_now_add\<close> writes.
\<close>

definition Sale_save ::
  "date \<Rightarrow> sale \<Rightarrow> sale list \<Rightarrow> py_error + (sale \<times> bool \<times> sale list)" where
  "Sale_save today self rows =
     (let self1 =
            (if sale_number self = [] then
               (let date_str = strftime_Ymd today;
                    today_count = length (filter (\<lambda>r. created_at r = Some today) rows) + 1
                in self\<lparr>sale_number := ''SAL-'' @ date_str @ ''-'' @ format_05d today_count\<rparr>)
             else self)
      in Sale_super_save today self1 rows)"


section \<open>Revenue aggregation\<close>

text \<open>
  The block ``determine the period'', which \<^verbatim>\<open>log_sale_changes\<close> and
  \<^verbatim>\<open>Command.handle\<close> both contain.
\<close>

definition period_bounds :: "date \<Rightarrow> py_error + (date \<times> date)" where
  "period_bounds sale_dt =
     (case date_replace sale_dt None None (Some 1) of
        Inl e \<Rightarrow> Inl e
      | Inr start_dt \<Rightarrow>
          (case (if month sale_dt = 12
                 then date_replace sale_dt (Some (year sale_dt + 1)) (Some 1) (Some 1)
                 else date_replace sale_dt None (Some (month sale_dt + 1)) (Some 1)) of
             Inl e \<Rightarrow> Inl e
           | Inr first_of_next \<Rightarrow>
               (case date_sub_one_day first_of_next of
                  Inl e \<Rightarrow> Inl e
                | Inr end_dt \<Rightarrow> Inr (start_dt, end_dt))))"

definition counted_statuses :: "string list" where
  "counted_statuses = [''confirmed'', ''dispatched'', ''delivered'']"

text \<open>
  The query \<^verbatim>\<open>Sale.objects.filter(customer=..., sale_date__gte=..., sale_date__lte=...,
  status__in=[...])\<close>.
\<close>

definition period_sales :: "uuid \<Rightarrow> date \<Rightarrow> date \<Rightarrow> sale list \<Rightarrow> sale list" where
  "period_sales cid start_dt end_dt rows =
     filter (\<lambda>s. map_option customer_id (customer s) = Some cid
                 \<and> date_le start_dt (sale_date s) \<and> date_le (sale_date s) end_dt
                 \<and> status s \<in> set counted_statuses) rows"

text \<open>
  \<^verbatim>\<open>Revenue.objects.get_or_create\<close> followed by the four assignments and
  \<^verbatim>\<open>revenue.save()\<close>, as both callers have them. An aggregate over no rows is
  \<^verbatim>\<open>None\<close>, which \<^verbatim>\<open>or 0\<close> turns into zero. The flag tells whether the row was created.
\<close>

definition recalculate_revenue ::
  "customer \<Rightarrow> user \<Rightarrow> date \<Rightarrow> date \<Rightarrow> state \<Rightarrow> bool \<times> state" where
  "recalculate_revenue c creator start_dt end_dt st =
     (let key = (customer_id c, ''monthly'', start_dt);
          (rev, created) =
             (case revenue_rows st key of
                Some r \<Rightarrow> (r, False)
              | None \<Rightarrow> (\<lparr>end_date = end_dt, total_revenue = 0, total_transactions = 0,
                          revenue.total_tax = 0, revenue.total_gst = 0,
                          revenue.created_by = creator\<rparr>, True));
          ps = period_sales (customer_id c) start_dt end_dt (sale_rows st);
          rev' = rev\<lparr>total_revenue := sum_list (map sale.total_amount ps),
                     total_transactions := length ps,
                     revenue.total_tax := sum_list (map sale.total_tax ps),
                     revenue.total_gst := sum_list (map sale.total_gst ps)\<rparr>
      in (created, st\<lparr>revenue_rows := (revenue_rows st)(key \<mapsto> rev')\<rparr>))"

text \<open>
  The body of the \<^verbatim>\<open>try\<close> block of \<^verbatim>\<open>log_sale_changes\<close>. Its first query,
  \<^verbatim>\<open>get_or_create\<close>, raises in a transaction that is marked for rollback.
\<close>

definition aggregate_try :: "sale \<Rightarrow> customer \<Rightarrow> state \<Rightarrow> py_error + state" where
  "aggregate_try instance c st =
     (case period_bounds (sale_date instance) of
        Inl e \<Rightarrow> Inl e
      | Inr (start_dt, end_dt) \<Rightarrow>
          if needs_rollback st then Inl broken_transaction
          else Inr (snd (recalculate_revenue c (sale.created_by instance) start_dt end_dt st)))"

definition Sale_str :: "sale \<Rightarrow> string" where
  "Sale_str self = ''Sale '' @ sale_number self"

text \<open>
  The \<^verbatim>\<open>post_save\<close> receiver of Sale. Its \<^verbatim>\<open>except\<close> clause is \<^verbatim>\<open>pass\<close>.
\<close>

definition log_sale_changes ::
  "(audit_log \<Rightarrow> py_error option) \<Rightarrow> sale \<Rightarrow> bool \<Rightarrow> state \<Rightarrow> state" where
  "log_sale_changes reject instance created st =
     (let st1 =
            (if created then
               (let customer_info = (case customer instance of
                                       Some c \<Rightarrow> name c | None \<Rightarrow> ''No Customer'')
                in log_action reject (Some (sale.created_by instance)) ''create'' ''Sale''
                     (sale_id instance) (Sale_str instance) None None None
                     (''Sale created: '' @ sale_number instance @ '' for '' @ customer_info)
                     st)
             else st)
      in case customer instance of
           None \<Rightarrow> st1
         | Some c \<Rightarrow>
             (case aggregate_try instance c st1 of
                Inr st2 \<Rightarrow> st2
              | Inl e \<Rightarrow> st1))"

text \<open>
  A write of a Sale: \<^verbatim>\<open>Sale.save\<close>, then the receiver when the row was written. In a
  transaction that is marked for rollback the queries of \<^verbatim>\<open>save\<close> raise. An error of
  the primary write leaves the tables as they were. A caller that is not inside a transaction
  block runs the write on a state with both flags false; a caller that wraps the write in
  \<^verbatim>\<open>with transaction.atomic():\<close>, as the administrative interface wraps its views,
  runs \<open>atomic (write_Sale reject today self)\<close>.
\<close>

definition write_Sale ::
  "(audit_log \<Rightarrow> py_error option) \<Rightarrow> date \<Rightarrow> sale \<Rightarrow> state \<Rightarrow> py_error + (sale \<times> state)" where
  "write_Sale reject today self st =
     (if needs_rollback st then Inl broken_transaction
      else case Sale_save today self (sale_rows st) of
             Inl e \<Rightarrow> Inl e
           | Inr (self', created, rows') \<Rightarrow>
               Inr (self', log_sale_changes reject self' created (st\<lparr>sale_rows := rows'\<rparr>)))"

text \<open>The \<^verbatim>\<open>post_save\<close> receiver of SaleItem, and a write of a SaleItem.\<close>

definition SaleItem_str :: "sale_item \<Rightarrow> string" where
  "SaleItem_str self = item_name self @ '' x '' @ str_int (quantity self)"

definition log_saleitem_changes ::
  "(audit_log \<Rightarrow> py_error option) \<Rightarrow> sale_item \<Rightarrow> bool \<Rightarrow> state \<Rightarrow> state" where
  "log_saleitem_changes reject instance created st =
     (if created then
        log_action reject None ''create'' ''SaleItem'' (sale_item_id instance)
          (SaleItem_str instance) None None None
          (''Sale item created: '' @ item_name instance @ '' x ''
             @ str_int (quantity instance)) st
      else st)"

text \<open>
  The result of a SaleItem write is the saved instance, or the exception of
  \<^verbatim>\<open>save\<close>, and the state; an exception leaves the tables as they were.
\<close>

definition write_SaleItem ::
  "(audit_log \<Rightarrow> py_error option) \<Rightarrow> bool \<Rightarrow> sale_item \<Rightarrow> state
     \<Rightarrow> (py_error + sale_item) \<times> state" where
  "write_SaleItem reject adding self st =
     (if needs_rollback st then (Inl broken_transaction, st)
      else case SaleItem_save adding self (sale_item_rows st) of
             Inl e \<Rightarrow> (Inl e, st)
           | Inr (self', created, rows') \<Rightarrow>
               (Inr self',
                log_saleitem_changes reject self' created (st\<lparr>sale_item_rows := rows'\<rparr>)))"



section \<open>The bulk pass\<close>

text \<open>
  The loop of \<^verbatim>\<open>Command.handle\<close> over the ordered query result. \<open>processed\<close> is the
  dictionary of keys already handled; the two counters are those the command reports. An
  exception ends the command where it is raised, with the rows written so far in place:
  \<^verbatim>\<open>customer.id\<close> raises \<^verbatim>\<open>AttributeError\<close> for a Sale without customer. The
  command's own console messages are left out.
\<close>

definition none_has_no_id :: string where
  "none_has_no_id =
     CHR 0x27 # ''NoneType'' @ CHR 0x27 # '' object has no attribute '' @ CHR 0x27 # ''id''
       @ [CHR 0x27]"

fun handle_loop ::
  "sale list \<Rightarrow> (uuid \<times> date) set \<Rightarrow> nat \<Rightarrow> nat \<Rightarrow> state
     \<Rightarrow> py_error option \<times> nat \<times> nat \<times> state" where
  "handle_loop [] processed created_count updated_count st =
     (None, created_count, updated_count, st)"
| "handle_loop (s # rest) processed created_count updated_count st =
     (case period_bounds (sale_date s) of
        Inl e \<Rightarrow> (Some e, created_count, updated_count, st)
      | Inr (start_dt, end_dt) \<Rightarrow>
          (case customer s of
             None \<Rightarrow> (Some (AttributeError none_has_no_id),
                       created_count, updated_count, st)
           | Some c \<Rightarrow>
               (let key = (customer_id c, start_dt) in
                if key \<notin> processed then
                  (case recalculate_revenue c (sale.created_by s) start_dt end_dt st of
                     (created, st') \<Rightarrow>
                       handle_loop rest (insert key processed)
                         (if created then created_count + 1 else created_count)
                         (if created then updated_count else updated_count + 1) st')
                else handle_loop rest processed created_count updated_count st)))"

text \<open>
  \<^verbatim>\<open>Command.handle\<close>. The query is ordered by \<^verbatim>\<open>order_by('customer', 'sale_date')\<close>;
  the place of Sales without customer and the order among equal keys are the database's
  choice, so the ordering is the parameter \<open>order_by\<close>.
\<close>

definition handle ::
  "(sale list \<Rightarrow> sale list) \<Rightarrow> state \<Rightarrow> py_error option \<times> nat \<times> nat \<times> state" where
  "handle order_by st =
     (let sales = order_by (filter (\<lambda>s. status s \<in> set counted_statuses) (sale_rows st))
      in if sales = [] then (None, 0, 0, st)
         else handle_loop sales {} 0 0 st)"


section \<open>Sale header totals and sequences of writes\<close>







section \<open>Revenue rows and the Sales they summarise\<close>


definition row_matches :: "revenue \<Rightarrow> sale list \<Rightarrow> bool" where
  "row_matches r ss =
     (total_revenue r = sum_list (map sale.total_amount ss)
      \<and> total_transactions r = length ss
      \<and> revenue.total_tax r = sum_list (map sale.total_tax ss)
      \<and> revenue.total_gst r = sum_list (map sale.total_gst ss))"

definition month_end :: "date \<Rightarrow> date" where
  "month_end s = \<lparr>year = year s, month = month s, day = days_in_month (year s) (month s)\<rparr>"

text \<open>The Revenue row of a customer and period start agrees with the Sales of the period.\<close>

definition fresh :: "state \<Rightarrow> uuid \<Rightarrow> date \<Rightarrow> bool" where
  "fresh st cid s =
     (case revenue_rows st (cid, ''monthly'', s) of
        None \<Rightarrow> False
      | Some r \<Rightarrow> row_matches r (period_sales cid s (month_end s) (sale_rows st)))"

text \<open>The keys that the loop of the bulk pass reaches before it stops.\<close>

fun visited_keys :: "sale list \<Rightarrow> (uuid \<times> date) set" where
  "visited_keys [] = {}"
| "visited_keys (x # xs) =
     (case period_bounds (sale_date x) of
        Inl e \<Rightarrow> {}
      | Inr (s, e) \<Rightarrow>
          (case customer x of
             None \<Rightarrow> {}
           | Some c \<Rightarrow> insert (customer_id c, s) (visited_keys xs)))"

text \<open>The state in which the bulk pass leaves the tables.\<close>

definition final_state :: "py_error option \<times> nat \<times> nat \<times> state \<Rightarrow> state" where
  "final_state r = snd (snd (snd r))"


section \<open>Example data\<close>

text \<open>Tables and instances at which the theorems below are evaluated.\<close>

definition march_5 :: date where
  "march_5 = \<lparr>year = 2024, month = 3, day = 5\<rparr>"

definition numbered_sale :: "nat \<Rightarrow> sale" where
  "numbered_sale i =
     \<lparr>sale_id = ''s'' @ str_nat i, sale_number = ''N'' @ str_nat i, customer = None,
      sale_date = march_5, status = ''draft'', subtotal = 0, sale.total_tax = 0,
      sale.total_gst = 0, sale.total_amount = 0, sale.created_by = 1,
      created_at = Some march_5\<rparr>"

definition busy_day :: "sale list" where
  "busy_day = map numbered_sale [0..<99999]"

definition new_sale :: sale where
  "new_sale =
     \<lparr>sale_id = ''new'', sale_number = '''', customer = None,
      sale_date = march_5, status = ''draft'', subtotal = 0, sale.total_tax = 0,
      sale.total_gst = 0, sale.total_amount = 0, sale.created_by = 1,
      created_at = None\<rparr>"

definition first_sale :: sale where
  "first_sale = new_sale\<lparr>sale_id := ''a''\<rparr>"

definition second_sale :: sale where
  "second_sale = new_sale\<lparr>sale_id := ''b''\<rparr>"

definition accept_all :: "audit_log \<Rightarrow> py_error option" where
  "accept_all row = None"


definition empty_state :: state where
  "empty_state =
     \<lparr>sale_rows = [], sale_item_rows = [], revenue_rows = Map.empty, audit_rows = [],
      stdout = [], in_atomic_block = False, needs_rollback = False\<rparr>"

definition walk_in_sale :: sale where
  "walk_in_sale = new_sale\<lparr>sale_id := ''w'', status := ''confirmed'', sale.total_amount := 75\<rparr>"

























section \<open>Properties of the derivation layer\<close>

lemma floor_numeral_div:
  "\<lfloor>numeral a / numeral b :: rat\<rfloor> = numeral a div numeral b"
  "\<lfloor>1 / numeral b :: rat\<rfloor> = 1 div numeral b"
  using floor_divide_of_int_eq [of "numeral a" "numeral b", where ?'a = rat]
    floor_divide_of_int_eq [of 1 "numeral b", where ?'a = rat]
  by simp_all

lemmas decimal_eval = quantize2_def adapt_decimalfield_value_def and_then_def Let_def
  floor_numeral_div
















lemmas save_eval = Transaction_save_def SaleItem_save_def Model_save_def Transaction_db_prep_def
  SaleItem_db_prep_def stored_transaction_def stored_sale_item_def decimal_eval

text \<open>
  C1: a Transaction written with \<open>is_taxable = False\<close> is claimed to have a stored
  \<open>tax_amount\<close> of zero, and one written with \<open>gst_applicable = False\<close> a stored
  \<open>gst_amount\<close> of zero. \<^verbatim>\<open>Transaction.save\<close> has no branch for a false flag: a
  transaction created as taxable at 5 percent and subject to GST at 10 percent on 1000, then
  updated with both flags cleared, keeps the amounts 50 and 100 and a total of 1150, in the
  instance and in the stored row.
\<close>

theorem Transaction_save_cleared_flags_keep_amounts:
  "(case Transaction_save True
           \<lparr>transaction_id = ''t1'', amount = 1000,
            is_taxable = True, transaction.tax_percentage = 5, transaction.tax_amount = 0,
            gst_applicable = True, transaction.gst_percentage = 10,
            transaction.gst_amount = 0, transaction.total_amount = 0\<rparr> [] of
      Inl e \<Rightarrow> False
    | Inr (t1, created1, rows1) \<Rightarrow>
        (case Transaction_save False (t1\<lparr>is_taxable := False, gst_applicable := False\<rparr>) rows1 of
           Inl e \<Rightarrow> False
         | Inr (t2, created2, rows2) \<Rightarrow>
             created1 \<and> \<not> created2
             \<and> map_option is_taxable (stored_transaction ''t1'' rows2) = Some False
             \<and> map_option gst_applicable (stored_transaction ''t1'' rows2) = Some False
             \<and> map_option transaction.tax_amount (stored_transaction ''t1'' rows2) = Some 50
             \<and> map_option transaction.gst_amount (stored_transaction ''t1'' rows2) = Some 100
             \<and> map_option transaction.total_amount (stored_transaction ''t1'' rows2)
                 = Some 1150))"
  by (simp add: save_eval)



















section \<open>Properties of dates, periods and number formatting\<close>

lemma replicate_numeral: "replicate (numeral v) x = x # replicate (numeral v - 1) x"
  by (simp add: numeral_eq_Suc)

lemmas text_eval = format_05d_def zero_pad_def str_nat.simps digit_char_def replicate_numeral
  strftime_Ymd_def str_int_def

lemmas date_eval = period_bounds_def date_replace_def date_new_def date_sub_one_day_def
  days_in_month_def is_leap_def date_le_def

lemma days_in_month_bounds: "28 \<le> days_in_month y m" "days_in_month y m \<le> 31"
  by (simp_all add: days_in_month_def)

lemma period_bounds_value:
  assumes "valid_date d" and "year d < 9999 \<or> month d < 12"
  shows "period_bounds d =
           Inr (\<lparr>year = year d, month = month d, day = 1\<rparr>,
                \<lparr>year = year d, month = month d, day = days_in_month (year d) (month d)\<rparr>)"
proof (cases "month d = 12")
  case True
  with assms have "year d < 9999" by simp
  with True assms(1) show ?thesis
    using days_in_month_bounds(1) [of "year d" 12]
    by (simp add: period_bounds_def date_replace_def date_new_def date_sub_one_day_def
        valid_date_def) (simp add: days_in_month_def)
next
  case False
  with assms(1) have m: "1 \<le> month d" "month d < 12" by (simp_all add: valid_date_def)
  have "28 \<le> days_in_month (year d) (month d)" "28 \<le> days_in_month (year d) (Suc (month d))"
    by (rule days_in_month_bounds)+
  with False m assms(1) show ?thesis
    by (simp add: period_bounds_def date_replace_def date_new_def date_sub_one_day_def
        valid_date_def)
qed

lemma in_period_iff:
  assumes "valid_date x"
  shows "date_le \<lparr>year = y, month = m, day = 1\<rparr> x
         \<and> date_le x \<lparr>year = y, month = m, day = days_in_month y m\<rparr>
         \<longleftrightarrow> year x = y \<and> month x = m"
  using assms by (auto simp: date_le_def valid_date_def)

text \<open>
  C6, as stated, at a sale date in December 9999: \<^verbatim>\<open>replace(year=year + 1, ...)\<close> asks
  for the year 10000, which no date has, so no period is computed.
\<close>

theorem period_bounds_december_9999:
  "valid_date \<lparr>year = 9999, month = 12, day = 15\<rparr>
   \<and> period_bounds \<lparr>year = 9999, month = 12, day = 15\<rparr>
       = Inl (ValueError ''year 10000 is out of range'')"
  by (simp add: valid_date_def date_eval text_eval)

text \<open>
  C6, amended: for every sale date before December 9999 the period starts on the first day
  of the date's month and ends on the last day of the same month: day 29 of a February in a
  leap year (every fourth year, except the centuries not divisible by 400), day 28 of any other
  February, day 30 of April, June, September and November, day 31 otherwise, with December
  ending in its own year. Both bounds are dates, and the dates between them are exactly the
  dates of that month.
\<close>

theorem period_bounds_calendar_month:
  assumes "valid_date d" and "year d < 9999 \<or> month d < 12"
  shows "\<exists>s e. period_bounds d = Inr (s, e)
           \<and> s = \<lparr>year = year d, month = month d, day = 1\<rparr>
           \<and> year e = year d \<and> month e = month d
           \<and> day e = (if month d = 2
                       then (if year d mod 4 = 0 \<and> (year d mod 100 \<noteq> 0 \<or> year d mod 400 = 0)
                             then 29 else 28)
                       else if month d \<in> {4, 6, 9, 11} then 30 else 31)
           \<and> valid_date s \<and> valid_date e
           \<and> (\<forall>x. valid_date x \<longrightarrow>
                  (date_le s x \<and> date_le x e \<longleftrightarrow> year x = year d \<and> month x = month d))"
proof -
  let ?s = "\<lparr>year = year d, month = month d, day = 1\<rparr>"
  let ?e = "\<lparr>year = year d, month = month d, day = days_in_month (year d) (month d)\<rparr>"
  have pb: "period_bounds d = Inr (?s, ?e)"
    using assms by (rule period_bounds_value)
  have len: "28 \<le> days_in_month (year d) (month d)"
    by (rule days_in_month_bounds)
  have vs: "valid_date ?s" and ve: "valid_date ?e"
    using assms(1) len by (simp_all add: valid_date_def)
  have de: "day ?e = (if month d = 2
                       then (if year d mod 4 = 0 \<and> (year d mod 100 \<noteq> 0 \<or> year d mod 400 = 0)
                             then 29 else 28)
                       else if month d \<in> {4, 6, 9, 11} then 30 else 31)"
    by (simp add: days_in_month_def is_leap_def)
  have between: "\<forall>x. valid_date x \<longrightarrow>
                  (date_le ?s x \<and> date_le x ?e \<longleftrightarrow> year x = year d \<and> month x = month d)"
    using in_period_iff by blast
  show ?thesis
    apply (rule exI [of _ ?s], rule exI [of _ ?e])
    using pb vs ve de between by simp
qed

theorem period_bounds_calendar_month_witness:
  "valid_date \<lparr>year = 2024, month = 2, day = 10\<rparr>
   \<and> period_bounds \<lparr>year = 2024, month = 2, day = 10\<rparr>
       = Inr (\<lparr>year = 2024, month = 2, day = 1\<rparr>, \<lparr>year = 2024, month = 2, day = 29\<rparr>)
   \<and> valid_date \<lparr>year = 2023, month = 12, day = 25\<rparr>
   \<and> period_bounds \<lparr>year = 2023, month = 12, day = 25\<rparr>
       = Inr (\<lparr>year = 2023, month = 12, day = 1\<rparr>, \<lparr>year = 2023, month = 12, day = 31\<rparr>)"
proof -
  have v1: "valid_date \<lparr>year = 2024, month = 2, day = 10\<rparr>"
    and v2: "valid_date \<lparr>year = 2023, month = 12, day = 25\<rparr>"
    by (simp_all add: valid_date_def days_in_month_def is_leap_def)
  from period_bounds_calendar_month [OF v1] period_bounds_calendar_month [OF v2] v1 v2
  show ?thesis
    by (auto intro!: date.equality)
qed

section \<open>Properties of Sale numbering\<close>

lemma length_str_nat: "n < 10 ^ k \<Longrightarrow> 0 < k \<Longrightarrow> length (str_nat n) \<le> k"
proof (induction n arbitrary: k rule: str_nat.induct)
  case (1 n)
  show ?case
  proof (cases "n < 10")
    case True
    with 1(3) show ?thesis by (simp add: str_nat.simps [of n])
  next
    case False
    then obtain j where k: "k = Suc j" using 1(3) by (cases k) auto
    with False 1(2) have j: "0 < j" by (cases j) auto
    from 1(2) k have "n div 10 < 10 ^ j" by (simp add: less_mult_imp_div_less mult.commute)
    with 1(1) [OF False _ j] have "length (str_nat (n div 10)) \<le> j" by simp
    with False k show ?thesis by (simp add: str_nat.simps [of n])
  qed
qed

lemma length_format_05d_small: "n < 100000 \<Longrightarrow> length (format_05d n) = 5"
  using length_str_nat [of n 5] by (simp add: format_05d_def zero_pad_def)

lemma format_05d_1_2: "format_05d (Suc 0) = ''00001''" "format_05d 2 = ''00002''"
  "format_05d (Suc (Suc 0)) = ''00002''" "format_05d 1 = ''00001''"
  by (simp_all add: text_eval)

lemma strftime_march_5: "strftime_Ymd march_5 = ''20240305''"
  by (simp add: march_5_def text_eval)

lemma Sale_save_number_generated:
  assumes "Sale_save today self rows = Inr (self', created, rows')" and "sale_number self = []"
  shows "sale_number self'
           = ''SAL-'' @ strftime_Ymd today @ ''-''
               @ format_05d (length (filter (\<lambda>r. created_at r = Some today) rows) + 1)"
  using assms
  by (auto simp: Sale_save_def Sale_super_save_def Let_def split: if_splits)

lemma Sale_save_number_kept:
  assumes "Sale_save today self rows = Inr (self', created, rows')" and "sale_number self \<noteq> []"
  shows "sale_number self' = sale_number self"
  using assms
  by (auto simp: Sale_save_def Sale_super_save_def Let_def split: if_splits)

lemma Sale_save_created_rows:
  assumes "Sale_save today self rows = Inr (self', True, rows')"
  shows "rows' = rows @ [self'] \<and> created_at self' = Some today"
  using assms
  by (auto simp: Sale_save_def Sale_super_save_def Let_def split: if_splits)

lemma busy_day_count: "length (filter (\<lambda>r. created_at r = Some march_5) busy_day) = 99999"
  by (simp add: busy_day_def filter_map o_def numbered_sale_def)

text \<open>
  C7, as stated, on a day on which 99999 Sales were already created: the count plus one is
  100000 and the suffix has six digits, not five.
\<close>

theorem Sale_save_six_digit_suffix:
  "sale_number new_sale = [] \<and> length busy_day = 99999
   \<and> Sale_save march_5 new_sale busy_day
     = Inr (new_sale\<lparr>sale_number := ''SAL-20240305-100000'', created_at := Some march_5\<rparr>,
            True,
            busy_day @ [new_sale\<lparr>sale_number := ''SAL-20240305-100000'',
                                  created_at := Some march_5\<rparr>])
   \<and> length (drop 13 ''SAL-20240305-100000'') = 6"
proof -
  have n: "format_05d (Suc (length (filter (\<lambda>r. created_at r = Some march_5) busy_day)))
             = ''100000''"
    unfolding busy_day_count by (simp add: text_eval)
  have d: "strftime_Ymd march_5 = ''20240305''"
    by (rule strftime_march_5)
  have u: "\<not> (\<exists>r \<in> set busy_day. sale_id r \<noteq> ''new'' \<and> sale_number r = ''SAL-20240305-100000'')"
    "\<not> (\<exists>r \<in> set busy_day. sale_id r = ''new'')"
    by (auto simp: busy_day_def numbered_sale_def)
  have "Sale_save march_5 new_sale busy_day
     = Inr (new_sale\<lparr>sale_number := ''SAL-20240305-100000'', created_at := Some march_5\<rparr>,
            True,
            busy_day @ [new_sale\<lparr>sale_number := ''SAL-20240305-100000'',
                                  created_at := Some march_5\<rparr>])"
    using u by (simp add: Sale_save_def Sale_super_save_def Let_def n d new_sale_def)
  moreover have "sale_number new_sale = []" "length busy_day = 99999"
    by (simp_all add: new_sale_def busy_day_def)
  ultimately show ?thesis by simp
qed


text \<open>
  C7, amended: a successful save of a Sale with an empty \<open>sale_number\<close> gives it the
  number \<open>SAL-<YYYYMMDD>-<N>\<close>, where the date is the current day and \<open>N\<close> is the
  number of Sales already created that day plus one, padded with zeros to at least five
  digits: exactly five digits while that number is below 100000. A save of a Sale that has a
  number keeps it, and the number is never empty after a save, so every later save keeps it.
  On a day without Sales, the first Sale created gets the suffix 00001 and the next one 00002.
\<close>

theorem Sale_save_sale_number:
  assumes ok: "Sale_save today self rows = Inr (self', created, rows')"
  shows "(let n = length (filter (\<lambda>r. created_at r = Some today) rows) + 1 in
          (sale_number self = [] \<longrightarrow>
             sale_number self' = ''SAL-'' @ strftime_Ymd today @ ''-'' @ format_05d n
             \<and> format_05d n = replicate (5 - length (str_nat n)) CHR ''0'' @ str_nat n
             \<and> 5 \<le> length (format_05d n)
             \<and> (n < 100000 \<longrightarrow> length (format_05d n) = 5)))
         \<and> (sale_number self \<noteq> [] \<longrightarrow> sale_number self' = sale_number self)
         \<and> (\<forall>today2 self2 rows2 self2' created2 rows2'.
               sale_number self2 = sale_number self'
               \<and> Sale_save today2 self2 rows2 = Inr (self2', created2, rows2')
               \<longrightarrow> sale_number self2' = sale_number self')
         \<and> (sale_number self = [] \<and> created \<and> (\<forall>r \<in> set rows. created_at r \<noteq> Some today) \<longrightarrow>
               sale_number self' = ''SAL-'' @ strftime_Ymd today @ ''-00001''
               \<and> (\<forall>second second' created2 rows2.
                     sale_number second = []
                     \<and> Sale_save today second rows' = Inr (second', created2, rows2)
                     \<longrightarrow> sale_number second' = ''SAL-'' @ strftime_Ymd today @ ''-00002''))"
proof -
  let ?n = "length (filter (\<lambda>r. created_at r = Some today) rows) + 1"
  have gen: "sale_number self = [] \<longrightarrow>
               sale_number self' = ''SAL-'' @ strftime_Ymd today @ ''-'' @ format_05d ?n"
    using Sale_save_number_generated [OF ok] by blast
  have shape: "format_05d ?n = replicate (5 - length (str_nat ?n)) CHR ''0'' @ str_nat ?n"
    "5 \<le> length (format_05d ?n)"
    by (simp_all add: format_05d_def zero_pad_def)
  have five: "?n < 100000 \<longrightarrow> length (format_05d ?n) = 5"
    using length_format_05d_small by blast
  have kept: "sale_number self \<noteq> [] \<longrightarrow> sale_number self' = sale_number self"
    using Sale_save_number_kept [OF ok] by blast
  have nonempty: "sale_number self' \<noteq> []"
  proof (cases "sale_number self = []")
    case True
    with gen show ?thesis by simp
  next
    case False
    with kept show ?thesis by simp
  qed
  have later: "\<forall>today2 self2 rows2 self2' created2 rows2'.
               sale_number self2 = sale_number self'
               \<and> Sale_save today2 self2 rows2 = Inr (self2', created2, rows2')
               \<longrightarrow> sale_number self2' = sale_number self'"
    using nonempty Sale_save_number_kept by metis
  have first_two:
    "sale_number self' = ''SAL-'' @ strftime_Ymd today @ ''-00001''
     \<and> (\<forall>second second' created2 rows2.
           sale_number second = []
           \<and> Sale_save today second rows' = Inr (second', created2, rows2)
           \<longrightarrow> sale_number second' = ''SAL-'' @ strftime_Ymd today @ ''-00002'')"
    if e: "sale_number self = []" and c: created
      and none: "\<forall>r \<in> set rows. created_at r \<noteq> Some today"
  proof -
    from none have zero: "filter (\<lambda>r. created_at r = Some today) rows = []"
      by (simp add: filter_empty_conv)
    with gen e have one: "sale_number self' = ''SAL-'' @ strftime_Ymd today @ ''-00001''"
      by (simp add: format_05d_1_2)
    from ok c have "Sale_save today self rows = Inr (self', True, rows')" by simp
    from Sale_save_created_rows [OF this]
    have r': "rows' = rows @ [self']" "created_at self' = Some today" by simp_all
    have "sale_number second' = ''SAL-'' @ strftime_Ymd today @ ''-00002''"
      if "sale_number second = []"
        and "Sale_save today second rows' = Inr (second', created2, rows2)"
      for second second' created2 rows2
      using Sale_save_number_generated [OF that(2) that(1)] r' zero
      by (simp add: format_05d_1_2)
    with one show ?thesis by blast
  qed
  from gen shape five kept later first_two show ?thesis
    unfolding Let_def by blast
qed

lemma first_sale_saved:
  "Sale_save march_5 first_sale []
     = Inr (first_sale\<lparr>sale_number := ''SAL-20240305-00001'', created_at := Some march_5\<rparr>,
            True,
            [first_sale\<lparr>sale_number := ''SAL-20240305-00001'', created_at := Some march_5\<rparr>])"
  by (simp add: Sale_save_def Sale_super_save_def Let_def first_sale_def new_sale_def
      strftime_march_5 format_05d_1_2)

lemma second_sale_saved:
  "Sale_save march_5 second_sale
       [first_sale\<lparr>sale_number := ''SAL-20240305-00001'', created_at := Some march_5\<rparr>]
     = Inr (second_sale\<lparr>sale_number := ''SAL-20240305-00002'', created_at := Some march_5\<rparr>,
            True,
            [first_sale\<lparr>sale_number := ''SAL-20240305-00001'', created_at := Some march_5\<rparr>,
             second_sale\<lparr>sale_number := ''SAL-20240305-00002'',
                          created_at := Some march_5\<rparr>])"
  by (simp add: Sale_save_def Sale_super_save_def Let_def first_sale_def second_sale_def
      new_sale_def strftime_march_5 format_05d_1_2)

theorem Sale_save_sale_number_witness:
  "Sale_save march_5 first_sale []
     = Inr (first_sale\<lparr>sale_number := ''SAL-20240305-00001'', created_at := Some march_5\<rparr>,
            True,
            [first_sale\<lparr>sale_number := ''SAL-20240305-00001'', created_at := Some march_5\<rparr>])
   \<and> sale_number first_sale = []
   \<and> Sale_save march_5 second_sale
        [first_sale\<lparr>sale_number := ''SAL-20240305-00001'', created_at := Some march_5\<rparr>]
     = Inr (second_sale\<lparr>sale_number := ''SAL-20240305-00002'', created_at := Some march_5\<rparr>,
            True,
            [first_sale\<lparr>sale_number := ''SAL-20240305-00001'', created_at := Some march_5\<rparr>,
             second_sale\<lparr>sale_number := ''SAL-20240305-00002'',
                          created_at := Some march_5\<rparr>])
   \<and> sale_number (second_sale\<lparr>sale_number := ''SAL-20240305-00002'',
                                created_at := Some march_5\<rparr>)
       = ''SAL-'' @ strftime_Ymd march_5 @ ''-00002''"
proof -
  have e: "sale_number first_sale = []" "sale_number second_sale = []"
    by (simp_all add: first_sale_def second_sale_def new_sale_def)
  have d: "sale_number first_sale = [] \<and> True
           \<and> (\<forall>r \<in> set ([]::sale list). created_at r \<noteq> Some march_5)"
    using e by simp
  note Sale_save_sale_number [OF first_sale_saved, THEN conjunct2, THEN conjunct2,
      THEN conjunct2, THEN mp, OF d, THEN conjunct2, rule_format, OF conjI,
      OF e(2) second_sale_saved]
  then have "sale_number (second_sale\<lparr>sale_number := ''SAL-20240305-00002'',
                                  created_at := Some march_5\<rparr>)
          = ''SAL-'' @ strftime_Ymd march_5 @ ''-00002''" .
  with first_sale_saved second_sale_saved e show ?thesis by blast
qed

section \<open>Properties of the Sale receiver\<close>

lemma log_action_tables [simp]:
  "sale_rows (log_action reject usr act model oid ostr old new ip descr st) = sale_rows st"
  "sale_item_rows (log_action reject usr act model oid ostr old new ip descr st)
     = sale_item_rows st"
  "revenue_rows (log_action reject usr act model oid ostr old new ip descr st)
     = revenue_rows st"
  "in_atomic_block (log_action reject usr act model oid ostr old new ip descr st)
     = in_atomic_block st"
  by (simp_all add: log_action_def log_action_try_def AuditLog_create_def Let_def
      split: option.splits)




lemma Sale_save_fields:
  assumes "Sale_save today self rows = Inr (self', created, rows')"
  shows "customer self' = customer self" "sale_id self' = sale_id self"
    "sale_date self' = sale_date self" "status self' = status self"
    "subtotal self' = subtotal self" "sale.total_tax self' = sale.total_tax self"
    "sale.total_gst self' = sale.total_gst self" "sale.total_amount self' = sale.total_amount self"
    "sale.created_by self' = sale.created_by self"
  using assms
  by (auto simp: Sale_save_def Sale_super_save_def Let_def split: if_splits)

lemma log_sale_changes_no_customer:
  "customer instance = None \<Longrightarrow>
     revenue_rows (log_sale_changes reject instance created st) = revenue_rows st"
  by (simp add: log_sale_changes_def Let_def)

lemma write_Sale_Inr:
  assumes "write_Sale reject today self st = Inr (self', st')"
  shows "\<not> needs_rollback st
         \<and> (\<exists>created rows'.
              Sale_save today self (sale_rows st) = Inr (self', created, rows')
              \<and> st' = log_sale_changes reject self' created (st\<lparr>sale_rows := rows'\<rparr>))"
  using assms by (auto simp: write_Sale_def split: sum.splits if_splits)

text \<open>
  C10: saving a Sale without customer performs no revenue aggregation: the receiver leaves
  every Revenue row as it was, whatever the status and the sale date, and so does the whole
  write.
\<close>

theorem write_Sale_without_customer:
  assumes "customer self = None"
  shows "revenue_rows (log_sale_changes reject self created st) = revenue_rows st
         \<and> (\<forall>self' st'. write_Sale reject today self st = Inr (self', st')
               \<longrightarrow> revenue_rows st' = revenue_rows st)"
proof -
  have "revenue_rows st' = revenue_rows st"
    if w: "write_Sale reject today self st = Inr (self', st')" for self' st'
  proof -
    from write_Sale_Inr [OF w] obtain created rows' where
      s: "Sale_save today self (sale_rows st) = Inr (self', created, rows')"
      and st': "st' = log_sale_changes reject self' created (st\<lparr>sale_rows := rows'\<rparr>)"
      by blast
    from Sale_save_fields(1) [OF s] assms have "customer self' = None" by simp
    with st' show ?thesis by (simp add: log_sale_changes_no_customer)
  qed
  with log_sale_changes_no_customer [OF assms] show ?thesis by blast
qed

lemma walk_in_written:
  "write_Sale accept_all march_5 walk_in_sale empty_state
     = Inr (walk_in_sale\<lparr>sale_number := ''SAL-20240305-00001'', created_at := Some march_5\<rparr>,
            empty_state
              \<lparr>sale_rows := [walk_in_sale\<lparr>sale_number := ''SAL-20240305-00001'',
                                        created_at := Some march_5\<rparr>],
               audit_rows :=
                 [\<lparr>user = Some 1, action = ''create'', model_name = ''Sale'', object_id = ''w'',
                   object_str = ''Sale SAL-20240305-00001'', old_values = None,
                   new_values = None, changes = None, ip_address = None,
                   description = ''Sale created: SAL-20240305-00001 for No Customer''\<rparr>]\<rparr>)"
  by (simp add: write_Sale_def Sale_save_def Sale_super_save_def Let_def walk_in_sale_def
      new_sale_def strftime_march_5 format_05d_1_2 empty_state_def log_sale_changes_def
      log_action_def log_action_try_def AuditLog_create_def accept_all_def Sale_str_def)

theorem write_Sale_without_customer_witness:
  "customer walk_in_sale = None \<and> status walk_in_sale = ''confirmed''
   \<and> revenue_rows
        (empty_state
              \<lparr>sale_rows := [walk_in_sale\<lparr>sale_number := ''SAL-20240305-00001'',
                                        created_at := Some march_5\<rparr>],
               audit_rows :=
                 [\<lparr>user = Some 1, action = ''create'', model_name = ''Sale'', object_id = ''w'',
                   object_str = ''Sale SAL-20240305-00001'', old_values = None,
                   new_values = None, changes = None, ip_address = None,
                   description = ''Sale created: SAL-20240305-00001 for No Customer''\<rparr>]\<rparr>)
       = revenue_rows empty_state"
proof -
  have c: "customer walk_in_sale = None" "status walk_in_sale = ''confirmed''"
    by (simp_all add: walk_in_sale_def new_sale_def)
  from write_Sale_without_customer [OF c(1), THEN conjunct2, rule_format, OF walk_in_written] c
  show ?thesis by simp
qed

section \<open>Properties of the side effects\<close>






lemma recalculate_flags [simp]:
  "needs_rollback (snd (recalculate_revenue c u s e st)) = needs_rollback st"
  "in_atomic_block (snd (recalculate_revenue c u s e st)) = in_atomic_block st"
  "stdout (snd (recalculate_revenue c u s e st)) = stdout st"
  "audit_rows (snd (recalculate_revenue c u s e st)) = audit_rows st"
  "sale_rows (snd (recalculate_revenue c u s e st)) = sale_rows st"
  "sale_item_rows (snd (recalculate_revenue c u s e st)) = sale_item_rows st"
  by (simp_all add: recalculate_revenue_def Let_def split: option.splits)

lemma aggregate_try_Inr:
  assumes "aggregate_try inst c st = Inr st2"
  shows "sale_rows st2 = sale_rows st" "sale_item_rows st2 = sale_item_rows st"
    "needs_rollback st2 = needs_rollback st" "in_atomic_block st2 = in_atomic_block st"
    "stdout st2 = stdout st" "audit_rows st2 = audit_rows st"
proof -
  from assms obtain s e where
    "st2 = snd (recalculate_revenue c (sale.created_by inst) s e st)"
    by (auto simp: aggregate_try_def split: sum.splits if_splits)
  then show "sale_rows st2 = sale_rows st" "sale_item_rows st2 = sale_item_rows st"
    "needs_rollback st2 = needs_rollback st" "in_atomic_block st2 = in_atomic_block st"
    "stdout st2 = stdout st" "audit_rows st2 = audit_rows st"
    by simp_all
qed


lemma after_aggregation:
  "sale_rows (case customer inst of None \<Rightarrow> st1
              | Some c \<Rightarrow> (case aggregate_try inst c st1 of Inr st2 \<Rightarrow> st2 | Inl e \<Rightarrow> st1))
     = sale_rows st1"
  "sale_item_rows (case customer inst of None \<Rightarrow> st1
              | Some c \<Rightarrow> (case aggregate_try inst c st1 of Inr st2 \<Rightarrow> st2 | Inl e \<Rightarrow> st1))
     = sale_item_rows st1"
  "needs_rollback (case customer inst of None \<Rightarrow> st1
              | Some c \<Rightarrow> (case aggregate_try inst c st1 of Inr st2 \<Rightarrow> st2 | Inl e \<Rightarrow> st1))
     = needs_rollback st1"
  "in_atomic_block (case customer inst of None \<Rightarrow> st1
              | Some c \<Rightarrow> (case aggregate_try inst c st1 of Inr st2 \<Rightarrow> st2 | Inl e \<Rightarrow> st1))
     = in_atomic_block st1"
  "stdout (case customer inst of None \<Rightarrow> st1
              | Some c \<Rightarrow> (case aggregate_try inst c st1 of Inr st2 \<Rightarrow> st2 | Inl e \<Rightarrow> st1))
     = stdout st1"
  "audit_rows (case customer inst of None \<Rightarrow> st1
              | Some c \<Rightarrow> (case aggregate_try inst c st1 of Inr st2 \<Rightarrow> st2 | Inl e \<Rightarrow> st1))
     = audit_rows st1"
  by (simp_all add: aggregate_try_Inr split: option.splits sum.splits)

lemma log_sale_changes_tables [simp]:
  "sale_rows (log_sale_changes reject instance created st) = sale_rows st"
  "sale_item_rows (log_sale_changes reject instance created st) = sale_item_rows st"
  "in_atomic_block (log_sale_changes reject instance created st) = in_atomic_block st"
  unfolding log_sale_changes_def Let_def after_aggregation by simp_all












section \<open>Properties of the Sale header totals\<close>


lemma write_SaleItem_tables [simp]:
  "sale_rows (snd (write_SaleItem reject adding line st)) = sale_rows st"
  by (simp add: write_SaleItem_def log_saleitem_changes_def split: sum.splits prod.splits)










section \<open>Properties of the revenue aggregation\<close>

lemma date_new_Inr: "date_new y m d = Inr x \<Longrightarrow> x = \<lparr>year = y, month = m, day = d\<rparr>
    \<and> 1 \<le> y \<and> y \<le> 9999 \<and> 1 \<le> m \<and> m \<le> 12 \<and> 1 \<le> d \<and> d \<le> days_in_month y m"
  by (auto simp: date_new_def split: if_splits)

lemma period_bounds_Inr:
  assumes "period_bounds d = Inr (s, e)"
  shows "s = \<lparr>year = year d, month = month d, day = 1\<rparr>" and "e = month_end s"
proof -
  from assms obtain n where
    s: "date_replace d None None (Some 1) = Inr s"
    and n: "(if month d = 12
             then date_replace d (Some (year d + 1)) (Some 1) (Some 1)
             else date_replace d None (Some (month d + 1)) (Some 1)) = Inr n"
    and e: "date_sub_one_day n = Inr e"
    by (auto simp: period_bounds_def split: sum.splits)
  from s show s': "s = \<lparr>year = year d, month = month d, day = 1\<rparr>"
    using date_new_Inr [of "year d" "month d" 1 s] by (simp add: date_replace_def)
  from s have m: "1 \<le> month d" "month d \<le> 12" "1 \<le> year d"
    using date_new_Inr [of "year d" "month d" 1 s] by (simp_all add: date_replace_def)
  show "e = month_end s"
  proof (cases "month d = 12")
    case True
    with n have "n = \<lparr>year = year d + 1, month = 1, day = 1\<rparr>"
      using date_new_Inr [of "year d + 1" 1 1 n] by (simp add: date_replace_def)
    with e True s' m show ?thesis
      by (auto simp: date_sub_one_day_def month_end_def days_in_month_def split: if_splits)
  next
    case False
    with n have "n = \<lparr>year = year d, month = month d + 1, day = 1\<rparr>"
      using date_new_Inr [of "year d" "month d + 1" 1 n] by (simp add: date_replace_def)
    with e False s' m show ?thesis
      by (auto simp: date_sub_one_day_def month_end_def split: if_splits)
  qed
qed


lemma recalculate_tables [simp]:
  "sale_rows (snd (recalculate_revenue c u s e st)) = sale_rows st"
  "sale_item_rows (snd (recalculate_revenue c u s e st)) = sale_item_rows st"
  "audit_rows (snd (recalculate_revenue c u s e st)) = audit_rows st"
  "stdout (snd (recalculate_revenue c u s e st)) = stdout st"
  by (simp_all add: recalculate_revenue_def Let_def split: option.splits prod.splits)

lemma recalculate_other:
  "k \<noteq> (customer_id c, ''monthly'', s) \<Longrightarrow>
     revenue_rows (snd (recalculate_revenue c u s e st)) k = revenue_rows st k"
  by (simp add: recalculate_revenue_def Let_def split: option.splits prod.splits)

lemma recalculate_key:
  "\<exists>r. revenue_rows (snd (recalculate_revenue c u s e st)) (customer_id c, ''monthly'', s)
          = Some r
        \<and> row_matches r (period_sales (customer_id c) s e (sale_rows st))"
  by (simp add: recalculate_revenue_def Let_def row_matches_def split: option.splits prod.splits)

lemma recalculate_created:
  "fst (recalculate_revenue c u s e st)
     \<longleftrightarrow> revenue_rows st (customer_id c, ''monthly'', s) = None"
  by (simp add: recalculate_revenue_def Let_def split: option.splits prod.splits)

lemma recalculate_fresh:
  "fresh (snd (recalculate_revenue c u s (month_end s) st)) (customer_id c) s"
  using recalculate_key [of c u s "month_end s" st]
  by (auto simp: fresh_def)

lemma recalculate_keeps:
  assumes "fresh st cid' s'"
  shows "fresh (snd (recalculate_revenue c u s (month_end s) st)) cid' s'"
proof (cases "cid' = customer_id c \<and> s' = s")
  case True
  then show ?thesis using recalculate_fresh by simp
next
  case False
  then have "(cid', ''monthly'', s') \<noteq> (customer_id c, ''monthly'', s)" by auto
  from recalculate_other [OF this] assms show ?thesis
    by (simp add: fresh_def split: option.splits)
qed

lemma recalculate_idem:
  assumes "fresh st (customer_id c) s"
  shows "recalculate_revenue c u s (month_end s) st = (False, st)"
proof -
  from assms obtain r where
    r: "revenue_rows st (customer_id c, ''monthly'', s) = Some r"
    and m: "row_matches r (period_sales (customer_id c) s (month_end s) (sale_rows st))"
    by (auto simp: fresh_def split: option.splits)
  let ?ps = "period_sales (customer_id c) s (month_end s) (sale_rows st)"
  have same: "r\<lparr>total_revenue := sum_list (map sale.total_amount ?ps),
               total_transactions := length ?ps,
               revenue.total_tax := sum_list (map sale.total_tax ?ps),
               revenue.total_gst := sum_list (map sale.total_gst ?ps)\<rparr> = r"
    using m by (simp add: row_matches_def)
  have upd: "(revenue_rows st)((customer_id c, ''monthly'', s) \<mapsto> r) = revenue_rows st"
    using r by (rule map_upd_triv)
  show ?thesis
    by (simp add: recalculate_revenue_def Let_def r same upd)
qed


lemma loop_Nil: "final_state (handle_loop [] P cc uc st) = st"
  by (simp add: final_state_def)

lemma loop_Inl:
  "period_bounds (sale_date x) = Inl e \<Longrightarrow>
     handle_loop (x # xs) P cc uc st = (Some e, cc, uc, st)"
  by simp

lemma loop_None:
  "period_bounds (sale_date x) = Inr (s, e) \<Longrightarrow> customer x = None \<Longrightarrow>
     handle_loop (x # xs) P cc uc st = (Some (AttributeError none_has_no_id), cc, uc, st)"
  by simp

lemma loop_skip:
  "period_bounds (sale_date x) = Inr (s, e) \<Longrightarrow> customer x = Some c \<Longrightarrow>
   (customer_id c, s) \<in> P \<Longrightarrow>
     handle_loop (x # xs) P cc uc st = handle_loop xs P cc uc st"
  by simp

lemma loop_step:
  "period_bounds (sale_date x) = Inr (s, e) \<Longrightarrow> customer x = Some c \<Longrightarrow>
   (customer_id c, s) \<notin> P \<Longrightarrow>
     handle_loop (x # xs) P cc uc st
       = handle_loop xs (insert (customer_id c, s) P)
           (if fst (recalculate_revenue c (sale.created_by x) s e st) then cc + 1 else cc)
           (if fst (recalculate_revenue c (sale.created_by x) s e st) then uc else uc + 1)
           (snd (recalculate_revenue c (sale.created_by x) s e st))"
  by (simp add: Let_def split: prod.splits)

lemma loop_cases:
  obtains (crash) e where "period_bounds (sale_date x) = Inl e"
  | (orphan) s e where "period_bounds (sale_date x) = Inr (s, e)" "customer x = None"
  | (seen) s e c where "period_bounds (sale_date x) = Inr (s, e)" "customer x = Some c"
      "(customer_id c, s) \<in> P"
  | (new) s e c where "period_bounds (sale_date x) = Inr (s, e)" "customer x = Some c"
      "(customer_id c, s) \<notin> P"
proof (cases "period_bounds (sale_date x)")
  case (Inl e)
  then show ?thesis by (rule crash)
next
  case (Inr p)
  obtain s e where p: "p = (s, e)" by (cases p)
  show ?thesis
  proof (cases "customer x")
    case None
    with Inr p show ?thesis by (intro orphan) simp_all
  next
    case (Some c)
    with Inr p show ?thesis by (cases "(customer_id c, s) \<in> P") (auto intro: seen new)
  qed
qed

lemma loop_sale_rows: "sale_rows (final_state (handle_loop L P cc uc st)) = sale_rows st"
proof (induction L arbitrary: P cc uc st)
  case Nil
  show ?case by (simp add: final_state_def)
next
  case (Cons x xs)
  show ?case
  proof (cases rule: loop_cases [where x = x and P = P])
    case (crash e)
    then show ?thesis by (simp only: loop_Inl) (simp add: final_state_def)
  next
    case (orphan s e)
    then show ?thesis by (simp only: loop_None) (simp add: final_state_def)
  next
    case (seen s e c)
    then show ?thesis by (simp only: loop_skip [OF seen] Cons.IH)
  next
    case (new s e c)
    show ?thesis by (simp only: loop_step [OF new] Cons.IH recalculate_tables)
  qed
qed

lemma loop_idem:
  assumes "\<forall>k \<in> visited_keys L. fresh st (fst k) (snd k)"
  shows "final_state (handle_loop L P cc uc st) = st"
  using assms
proof (induction L arbitrary: P cc uc)
  case Nil
  show ?case by (simp add: final_state_def)
next
  case (Cons x xs)
  show ?case
  proof (cases rule: loop_cases [where x = x and P = P])
    case (crash e)
    then show ?thesis by (simp only: loop_Inl) (simp add: final_state_def)
  next
    case (orphan s e)
    then show ?thesis by (simp only: loop_None) (simp add: final_state_def)
  next
    case (seen s e c)
    from seen(1,2) have vk: "visited_keys (x # xs) = insert (customer_id c, s) (visited_keys xs)"
      by simp
    with Cons.prems have "\<forall>k \<in> visited_keys xs. fresh st (fst k) (snd k)"
      by (simp only: ball_simps(7)) simp
    then show ?thesis by (simp only: loop_skip [OF seen] Cons.IH)
  next
    case (new s e c)
    from new(1,2) have vk: "visited_keys (x # xs) = insert (customer_id c, s) (visited_keys xs)"
      by simp
    with Cons.prems have rest: "\<forall>k \<in> visited_keys xs. fresh st (fst k) (snd k)"
      and this_key: "fresh st (customer_id c) s" by simp_all
    from period_bounds_Inr(2) [OF new(1)] have e: "e = month_end s" .
    from recalculate_idem [OF this_key]
    have r: "recalculate_revenue c (sale.created_by x) s e st = (False, st)"
      unfolding e .
    show ?thesis
      by (simp only: loop_step [OF new] r fst_conv snd_conv Cons.IH [OF rest])
  qed
qed

lemma un_insert_seen: "k \<in> P \<Longrightarrow> P \<union> insert k V = P \<union> V"
  by blast

lemma un_insert_new: "P \<union> insert k V = insert k P \<union> V"
  by blast

lemma loop_fresh:
  assumes "\<forall>k \<in> P. fresh st (fst k) (snd k)"
  shows "\<forall>k \<in> P \<union> visited_keys L.
           fresh (final_state (handle_loop L P cc uc st)) (fst k) (snd k)"
  using assms
proof (induction L arbitrary: P cc uc st)
  case Nil
  then show ?case by (simp add: final_state_def)
next
  case (Cons x xs)
  show ?case
  proof (cases rule: loop_cases [where x = x and P = P])
    case (crash e)
    then have "visited_keys (x # xs) = {}" by simp
    with Cons.prems show ?thesis
      by (simp only: loop_Inl [OF crash]) (simp add: final_state_def)
  next
    case (orphan s e)
    then have "visited_keys (x # xs) = {}" by simp
    with Cons.prems show ?thesis
      by (simp only: loop_None [OF orphan]) (simp add: final_state_def)
  next
    case (seen s e c)
    from seen(1,2) have vk: "visited_keys (x # xs) = insert (customer_id c, s) (visited_keys xs)"
      by simp
    have "P \<union> visited_keys (x # xs) = P \<union> visited_keys xs"
      unfolding vk using seen(3) by (rule un_insert_seen)
    with Cons.IH [OF Cons.prems] show ?thesis by (simp only: loop_skip [OF seen])
  next
    case (new s e c)
    from new(1,2) have vk: "visited_keys (x # xs) = insert (customer_id c, s) (visited_keys xs)"
      by simp
    from period_bounds_Inr(2) [OF new(1)] have e: "e = month_end s" .
    let ?st = "snd (recalculate_revenue c (sale.created_by x) s e st)"
    have "\<forall>k \<in> insert (customer_id c, s) P. fresh ?st (fst k) (snd k)"
    proof
      fix k
      assume k: "k \<in> insert (customer_id c, s) P"
      show "fresh ?st (fst k) (snd k)"
      proof (cases "k \<in> P")
        case True
        with Cons.prems have "fresh st (fst k) (snd k)" by (rule bspec)
        then show ?thesis unfolding e by (rule recalculate_keeps)
      next
        case False
        with k have "k = (customer_id c, s)" by simp
        then show ?thesis unfolding e by (simp only: fst_conv snd_conv recalculate_fresh)
      qed
    qed
    from Cons.IH [OF this]
    have "\<forall>k \<in> insert (customer_id c, s) P \<union> visited_keys xs.
            fresh (final_state (handle_loop (x # xs) P cc uc st)) (fst k) (snd k)"
      by (simp only: loop_step [OF new])
    then show ?thesis
      by (simp only: vk un_insert_new)
  qed
qed


lemma handle_state:
  "final_state (handle order_by st)
     = final_state (handle_loop
         (order_by (filter (\<lambda>s. status s \<in> set counted_statuses) (sale_rows st))) {} 0 0 st)"
  by (simp add: handle_def Let_def final_state_def)

lemma handle_sale_rows: "sale_rows (final_state (handle order_by st)) = sale_rows st"
  by (simp only: handle_state loop_sale_rows)

text \<open>
  C5: the bulk pass is idempotent. Run a second time on the state the first run left, with the
  Sale data unchanged, it leaves every table, and so every Revenue row with all its fields, as
  the first run left it. This holds for every ordering of the query, and also when the
  command stops on an exception.
\<close>

theorem handle_idempotent:
  "final_state (handle order_by (final_state (handle order_by st)))
     = final_state (handle order_by st)
   \<and> revenue_rows (final_state (handle order_by (final_state (handle order_by st))))
     = revenue_rows (final_state (handle order_by st))"
proof -
  let ?L = "order_by (filter (\<lambda>s. status s \<in> set counted_statuses) (sale_rows st))"
  let ?st1 = "final_state (handle order_by st)"
  have st1: "?st1 = final_state (handle_loop ?L {} 0 0 st)"
    by (rule handle_state)
  have "\<forall>k \<in> {} \<union> visited_keys ?L.
          fresh (final_state (handle_loop ?L {} 0 0 st)) (fst k) (snd k)"
    by (rule loop_fresh) simp
  then have fr: "\<forall>k \<in> visited_keys ?L. fresh ?st1 (fst k) (snd k)"
    by (simp only: st1 Un_empty_left)
  have "final_state (handle order_by ?st1) = final_state (handle_loop ?L {} 0 0 ?st1)"
    by (simp only: handle_state [of order_by ?st1] handle_sale_rows)
  also from fr have "\<dots> = ?st1" by (rule loop_idem)
  finally show ?thesis by simp
qed

section \<open>Properties of the Revenue rows\<close>
































end
